theory Spec2Isabelle
  imports Main "HOL-Library.Word" "HOL-Library.Sublist"
begin

section \<open>Data model\<close>

text \<open>
  Go's \<open>error\<close> values. The evaluator only ever tests \<open>err != nil\<close>, so an error is
  \<open>error option\<close> with \<open>None\<close> for \<open>nil\<close>; the constructors name where it arose.
\<close>

datatype error = TransportError | ReadError | DecodeError | NotHealthyError

text \<open>The thresholds read through viper: \<open>max-seconds-behind\<close> and \<open>min-peers\<close>.\<close>

record config =
  maxSecondsBehind :: int
  minPeers :: int

text \<open>
  The fields of the \<open>/health\<close> document of Nethermind that the code reads: the top-level
  \<open>status\<close> and, under \<open>entries.node-health.data\<close>, \<open>IsSyncing\<close> and \<open>Errors\<close>.
\<close>

record NethermindHealth =
  Status :: string
  IsSyncing :: bool
  Errors :: "string list"

text \<open>
  What the node answers during one evaluation, one field per outbound call:
  \<^item> \<open>dial\<close>: the error of \<open>ethclient.Dial(url)\<close>, if any, the same each time the
  URL is dialled;
  \<^item> \<open>latestBlock\<close>: \<open>client.BlockByNumber\<close>, as the error or, for the block
  returned, the duration \<open>currentTimestamp.Sub(blockTimestamp)\<close> in nanoseconds (a
  \<open>time.Duration\<close>), negative when the block is stamped after the local clock;
  \<^item> \<open>peerCount\<close>: \<open>client.PeerCount\<close>, a \<open>uint64\<close>;
  \<^item> \<open>clientVersion\<close>: the \<open>result\<close> string of \<open>web3_clientVersion\<close>, or the error of
  the post, the read or the decoding;
  \<^item> \<open>health\<close>: the decoded document of \<open>GET url/health\<close>, or the error.
\<close>

record node =
  dial :: "error option"
  latestBlock :: "error + int"
  peerCount :: "error + 64 word"
  clientVersion :: "error + string"
  health :: "error + NethermindHealth"

text \<open>
  The effects of an evaluation, in the order they happen: the calls sent to the node and
  the lines written to the log (level and message; the structured fields and the values
  formatted into a message are left out).
\<close>

datatype call = BlockByNumber | PeerCount | Web3ClientVersion | GetHealth

datatype level = InfoLevel | WarnLevel | ErrorLevel | FatalLevel

datatype event = Call call | Log level string

section \<open>Client detection (clients/utils.go)\<close>

text \<open>\<open>strings.Contains(s, substr)\<close>: \<open>substr\<close> occurs in \<open>s\<close> as a contiguous run.\<close>

definition strings_Contains :: "string \<Rightarrow> string \<Rightarrow> bool" where
  "strings_Contains s substr = sublist substr s"

text \<open>
  The \<open>switch\<close> at the end of \<open>DetectClientType\<close> over \<open>rpcResponse.Result\<close>, first
  matching case first.
\<close>

definition clientTypeOf :: "string \<Rightarrow> string" where
  "clientTypeOf result =
     (if strings_Contains result ''Nethermind'' then ''Nethermind''
      else if strings_Contains result ''erigon'' then ''Erigon''
      else if strings_Contains result ''reth'' then ''Reth''
      else ''Unknown'')"

text \<open>
  \<open>DetectClientType\<close>: one \<open>web3_clientVersion\<close> call; any error of the post, the read
  or the decoding returns the empty string and the error.
\<close>

definition DetectClientType :: "node \<Rightarrow> (string \<times> error option) \<times> event list" where
  "DetectClientType nd =
     (case clientVersion nd of
        Inl e \<Rightarrow> (('''', Some e), [Call Web3ClientVersion])
      | Inr result \<Rightarrow> ((clientTypeOf result, None), [Call Web3ClientVersion]))"

section \<open>The composite evaluator (main package, variant with \<open>int\<close> results)\<close>

text \<open>
  \<open>delta := currentTimestamp.Sub(blockTimestamp).Seconds()\<close> is a \<open>float64\<close>. The model
  keeps the duration in nanoseconds and computes with it exactly: \<open>delta > float64(m)\<close>
  is \<open>SecondsGreater d m\<close>, and \<open>int(delta)\<close>, which drops the fraction towards zero, is
  \<open>intSeconds d\<close>. The rounding of \<open>float64\<close> is outside the model.
\<close>

definition SecondsGreater :: "int \<Rightarrow> int \<Rightarrow> bool" where
  "SecondsGreater d m = (d > m * 1000000000)"

definition intSeconds :: "int \<Rightarrow> int" where
  "intSeconds d = (if d < 0 then - ((- d) div 1000000000) else d div 1000000000)"

text \<open>
  \<open>blockDelta\<close>. In the branch of a lag above the threshold the source returns
  \<open>int(delta), err\<close>, where \<open>err\<close> still holds the \<open>nil\<close> of the successful
  \<open>BlockByNumber\<close> call.
\<close>

definition blockDelta :: "config \<Rightarrow> node \<Rightarrow> (int \<times> error option) \<times> event list" where
  "blockDelta cfg nd =
     (case dial nd of
        Some e \<Rightarrow> ((0, Some e), [Log ErrorLevel ''Failed to connect to the Ethereum client''])
      | None \<Rightarrow>
         (case latestBlock nd of
            Inl e \<Rightarrow> ((0, Some e),
               [Call BlockByNumber, Log ErrorLevel ''Failed to retrieve the latest block''])
          | Inr d \<Rightarrow>
             (let err = None in
              if SecondsGreater d (maxSecondsBehind cfg)
              then ((intSeconds d, err),
                 [Call BlockByNumber, Log ErrorLevel ''Node is too far behind''])
              else ((intSeconds d, None), [Call BlockByNumber]))))"

text \<open>
  \<open>checkNodePeers\<close>. \<open>count := int(peerCount)\<close> reads the \<open>uint64\<close> as a signed 64-bit
  \<open>int\<close>. Below the minimum the source returns \<open>count, err\<close> with \<open>err\<close> being \<open>nil\<close>.
\<close>

definition checkNodePeers :: "config \<Rightarrow> node \<Rightarrow> (int \<times> error option) \<times> event list" where
  "checkNodePeers cfg nd =
     (case dial nd of
        Some e \<Rightarrow> ((0, Some e), [Log ErrorLevel ''Failed to connect to the Ethereum client''])
      | None \<Rightarrow>
         (case peerCount nd of
            Inl e \<Rightarrow> ((0, Some e),
               [Call PeerCount, Log ErrorLevel ''Failed to retrieve the number of peers''])
          | Inr p \<Rightarrow>
             (let count = sint p; err = None in
              if count < minPeers cfg then ((count, err), [Call PeerCount])
              else ((count, None), [Call PeerCount]))))"

text \<open>\<open>clients.NethermindHealthCheck\<close>: one \<open>GET url/health\<close>, decoded.\<close>

definition NethermindHealthCheck :: "node \<Rightarrow> (error + NethermindHealth) \<times> event list" where
  "NethermindHealthCheck nd = (health nd, [Call GetHealth])"

text \<open>
  \<open>nodeHealth\<close>: the verdict and the effects of one evaluation. The source's locals
  \<open>blockDelta\<close> and \<open>peerCount\<close> are \<open>delta\<close> and \<open>peers\<close> here.
\<close>

definition nodeHealth :: "config \<Rightarrow> node \<Rightarrow> bool \<times> event list" where
  "nodeHealth cfg nd =
     (case blockDelta cfg nd of ((delta, err), t1) \<Rightarrow>
      if err \<noteq> None
      then (False, t1 @ [Log ErrorLevel ''Failed health check by block time delta''])
      else
       (case checkNodePeers cfg nd of ((peers, err), t2) \<Rightarrow>
        if err \<noteq> None
        then (False, t1 @ t2 @ [Log ErrorLevel ''Failed health check by peer count''])
        else
         (case DetectClientType nd of ((clientType, err), t3) \<Rightarrow>
          let t4 = (if err \<noteq> None
                    then [Log InfoLevel ''Failed to detect the client type''] else [])
          in
          if clientType \<noteq> ''Nethermind''
          then
            (let isNodeHealthy =
                  (peers \<ge> minPeers cfg \<and> delta \<le> maxSecondsBehind cfg)
             in (isNodeHealthy, t1 @ t2 @ t3 @ t4 @ [Log InfoLevel ''Node health check'']))
          else
            (case NethermindHealthCheck nd of
               (Inl e, t5) \<Rightarrow>
                 (False, t1 @ t2 @ t3 @ t4 @ t5 @
                    [Log ErrorLevel ''Failed to retrieve the Nethermind health''])
             | (Inr h, t5) \<Rightarrow>
                 if length (Errors h) \<noteq> 0
                 then (False, t1 @ t2 @ t3 @ t4 @ t5 @ [Log ErrorLevel ''Node health errors''])
                 else if IsSyncing h
                 then (False, t1 @ t2 @ t3 @ t4 @ t5 @ [Log ErrorLevel ''Node is syncing''])
                 else
                   (let isNodeHealthy =
                         (\<not> IsSyncing h \<and> peers \<ge> minPeers cfg
                          \<and> delta \<le> maxSecondsBehind cfg)
                    in (isNodeHealthy,
                        t1 @ t2 @ t3 @ t4 @ t5 @ [Log InfoLevel ''Node health check'']))))))"

text \<open>\<open>readinessHandler\<close>: the status code written for \<open>GET /ready\<close>.\<close>

definition readinessHandler :: "config \<Rightarrow> node \<Rightarrow> nat \<times> event list" where
  "readinessHandler cfg nd =
     (case nodeHealth cfg nd of
        (True, t) \<Rightarrow> (200, t)
      | (False, t) \<Rightarrow> (503, t @ [Log WarnLevel ''Node is not healthy'']))"

text \<open>The calls among the effects, in order.\<close>

fun callsOf :: "event list \<Rightarrow> call list" where
  "callsOf [] = []"
| "callsOf (Call c # t) = c # callsOf t"
| "callsOf (Log l m # t) = callsOf t"

section \<open>The composite evaluator (main package, variant with \<open>uint64\<close> results)\<close>

text \<open>
  In this variant \<open>blockDelta\<close> returns \<open>uint64(delta)\<close>. For a \<open>delta\<close> of zero or
  more that is the whole seconds. For a negative \<open>delta\<close> of a second or more Go leaves
  the result to the implementation; the model takes that of the amd64 compiler, which
  converts to a signed 64-bit integer and reads its bits as unsigned: the whole seconds
  as a two's complement word.
\<close>

definition uint64Seconds :: "int \<Rightarrow> 64 word" where
  "uint64Seconds d = word_of_int (intSeconds d)"

text \<open>
  \<open>viper.GetUint64\<close> of a threshold that was set as an \<open>int\<close>: 0 when the value is
  negative and cannot be cast.
\<close>

definition GetUint64 :: "int \<Rightarrow> 64 word" where
  "GetUint64 v = (if v < 0 then 0 else word_of_int v)"

text \<open>\<open>blockDelta\<close>, with the same \<open>nil\<close> \<open>err\<close> in the branch of a lag above the threshold.\<close>

definition blockDelta_u64 :: "config \<Rightarrow> node \<Rightarrow> (64 word \<times> error option) \<times> event list" where
  "blockDelta_u64 cfg nd =
     (case dial nd of
        Some e \<Rightarrow> ((0, Some e), [Log ErrorLevel ''Failed to connect to the Ethereum client''])
      | None \<Rightarrow>
         (case latestBlock nd of
            Inl e \<Rightarrow> ((0, Some e),
               [Call BlockByNumber, Log ErrorLevel ''Failed to retrieve the latest block''])
          | Inr d \<Rightarrow>
             (let err = None in
              if SecondsGreater d (maxSecondsBehind cfg)
              then ((uint64Seconds d, err),
                 [Call BlockByNumber, Log ErrorLevel ''Node is too far behind''])
              else ((uint64Seconds d, None), [Call BlockByNumber]))))"

text \<open>\<open>checkNodePeers\<close> compares the \<open>uint64\<close> count with \<open>viper.GetUint64("min-peers")\<close>.\<close>

definition checkNodePeers_u64 ::
  "config \<Rightarrow> node \<Rightarrow> (64 word \<times> error option) \<times> event list" where
  "checkNodePeers_u64 cfg nd =
     (case dial nd of
        Some e \<Rightarrow> ((0, Some e), [Log ErrorLevel ''Failed to connect to the Ethereum client''])
      | None \<Rightarrow>
         (case peerCount nd of
            Inl e \<Rightarrow> ((0, Some e),
               [Call PeerCount, Log ErrorLevel ''Failed to retrieve the number of peers''])
          | Inr p \<Rightarrow>
             (let minPeers_v = GetUint64 (minPeers cfg); err = None in
              if p < minPeers_v then ((p, err), [Call PeerCount])
              else ((p, None), [Call PeerCount]))))"

text \<open>
  \<open>nodeHealth\<close> of this variant: the final comparisons are between \<open>uint64\<close> values, the
  thresholds converted by \<open>uint64(viper.GetInt(...))\<close>; the line \<open>OK\<close> is logged before
  the verdict is computed.
\<close>

definition nodeHealth_u64 :: "config \<Rightarrow> node \<Rightarrow> bool \<times> event list" where
  "nodeHealth_u64 cfg nd =
     (case blockDelta_u64 cfg nd of ((delta, err), t1) \<Rightarrow>
      if err \<noteq> None
      then (False, t1 @ [Log ErrorLevel ''Failed health check by block time delta''])
      else
       (case checkNodePeers_u64 cfg nd of ((peers, err), t2) \<Rightarrow>
        if err \<noteq> None
        then (False, t1 @ t2 @ [Log ErrorLevel ''Failed health check by peer count''])
        else
         (case DetectClientType nd of ((clientType, err), t3) \<Rightarrow>
          let t4 = (if err \<noteq> None
                    then [Log InfoLevel ''Failed to detect the client type''] else [])
          in
          if clientType \<noteq> ''Nethermind''
          then
            (let isNodeHealthy =
                  (peers \<ge> word_of_int (minPeers cfg)
                   \<and> delta \<le> word_of_int (maxSecondsBehind cfg))
             in (isNodeHealthy, t1 @ t2 @ t3 @ t4 @ [Log InfoLevel ''OK'']))
          else
            (case NethermindHealthCheck nd of
               (Inl e, t5) \<Rightarrow>
                 (False, t1 @ t2 @ t3 @ t4 @ t5 @
                    [Log ErrorLevel ''Failed to retrieve the Nethermind health''])
             | (Inr h, t5) \<Rightarrow>
                 if length (Errors h) \<noteq> 0
                 then (False, t1 @ t2 @ t3 @ t4 @ t5 @ [Log ErrorLevel ''Node health errors''])
                 else if IsSyncing h
                 then (False, t1 @ t2 @ t3 @ t4 @ t5 @ [Log ErrorLevel ''Node is syncing''])
                 else
                   (let isNodeHealthy =
                         (\<not> IsSyncing h \<and> peers \<ge> word_of_int (minPeers cfg)
                          \<and> delta \<le> word_of_int (maxSecondsBehind cfg))
                    in (isNodeHealthy, t1 @ t2 @ t3 @ t4 @ t5 @ [Log InfoLevel ''OK'']))))))"

section \<open>Start-up (main package, variant with the retrying readiness request)\<close>

text \<open>
  What \<open>main\<close> meets at start-up: \<open>probe\<close> is the error of \<open>retryClient.Do(req)\<close>,
  returned once the retries are used up, together with a \<open>nil\<close> response; \<open>listen\<close> is
  the error of \<open>http.ListenAndServe\<close>, \<open>None\<close> when the port is bound and the server keeps
  serving. \<open>retryablehttp.NewRequest\<close> is taken to succeed.
\<close>

record startup =
  probe :: "error option"
  listen :: "error option"

datatype outcome = Serving | FatalExit | Panic

text \<open>
  \<open>main\<close>. After a failed request the source logs the error and goes on to
  \<open>defer resp.Body.Close()\<close>, which reads the field \<open>Body\<close> of the \<open>nil\<close> response.
\<close>

definition main :: "startup \<Rightarrow> outcome \<times> event list" where
  "main s =
     (case probe s of
        Some e \<Rightarrow> (Panic, [Log ErrorLevel ''Failed to perform a new request''])
      | None \<Rightarrow>
         (case listen s of
            Some e \<Rightarrow> (FatalExit, [Log FatalLevel ''Failed to start the server''])
          | None \<Rightarrow> (Serving, [])))"

section \<open>The Nethermind check with the status string (clients/nethermind.go)\<close>

text \<open>
  \<open>CheckNethermindHealth\<close>: \<open>http.Get\<close>, \<open>io.ReadAll\<close>, \<open>json.Unmarshal\<close>, then the
  test of the document. A failed read or decoding is logged by the function itself.
\<close>

definition CheckNethermindHealth :: "node \<Rightarrow> (bool \<times> error option) \<times> event list" where
  "CheckNethermindHealth nd =
     (case health nd of
        Inl e \<Rightarrow>
          ((False, Some e),
           Call GetHealth #
             (if e = ReadError then [Log ErrorLevel ''Failed to read the health response'']
              else if e = DecodeError
              then [Log ErrorLevel ''Failed to unmarshal the health response'']
              else []))
      | Inr h \<Rightarrow>
          if Status h = ''Healthy'' \<and> \<not> IsSyncing h \<and> length (Errors h) = 0
          then ((True, None), [Call GetHealth])
          else ((False, Some NotHealthyError), [Call GetHealth]))"

section \<open>The continuous-polling variant (main.go)\<close>

text \<open>The health report of the node, four status strings.\<close>

record HealthResponse =
  CheckBlock :: string
  MaxSecondsBehind :: string
  MinPeerCount :: string
  Synced :: string

definition isHealthyOrDisabled :: "string \<Rightarrow> bool" where
  "isHealthyOrDisabled status = (status = ''HEALTHY'' \<or> status = ''DISABLED'')"

text \<open>
  What one pass through the body of the \<open>for\<close> loop of \<open>checkNodeHealth\<close> meets: the
  error of \<open>http.NewRequest\<close>, of \<open>client.Do\<close> or of the decoding, or the decoded report.
\<close>

datatype answer =
  NewRequestFailed error | DoFailed error | DecodeFailed error | Decoded HealthResponse

text \<open>One pass: the new value of the shared \<open>isNodeHealthy\<close> and the log line, if any.\<close>

definition checkNodeHealth_pass :: "answer \<Rightarrow> bool \<times> event list" where
  "checkNodeHealth_pass a =
     (case a of
        NewRequestFailed e \<Rightarrow> (False, [Log ErrorLevel ''Error creating request:''])
      | DoFailed e \<Rightarrow> (False, [Log ErrorLevel ''Error checking node health:''])
      | DecodeFailed e \<Rightarrow> (False, [Log ErrorLevel ''Error decoding health response:''])
      | Decoded healthResponse \<Rightarrow>
          (isHealthyOrDisabled (Synced healthResponse) \<and>
           isHealthyOrDisabled (MinPeerCount healthResponse) \<and>
           isHealthyOrDisabled (MaxSecondsBehind healthResponse) \<and>
           isHealthyOrDisabled (CheckBlock healthResponse), []))"

text \<open>
  The loop never exits. \<open>checkNodeHealth\<close> runs it over the answers received so far and
  gives the value \<open>isNodeHealthy\<close> then holds, starting from the given one.
\<close>

fun checkNodeHealth :: "answer list \<Rightarrow> bool \<Rightarrow> bool" where
  "checkNodeHealth [] isNodeHealthy = isNodeHealthy"
| "checkNodeHealth (a # answers) isNodeHealthy =
     checkNodeHealth answers (fst (checkNodeHealth_pass a))"

text \<open>The handler of the polling variant reads the shared verdict.\<close>

definition readinessHandler_polling :: "bool \<Rightarrow> nat" where
  "readinessHandler_polling isNodeHealthy = (if isNodeHealthy then 200 else 503)"

section \<open>Concrete configurations and nodes\<close>

text \<open>The defaults of the flags: 30 seconds and 3 peers.\<close>

definition defaults :: config where
  "defaults = \<lparr>maxSecondsBehind = 30, minPeers = 3\<rparr>"

text \<open>The defaults of the flags in the variant with \<open>uint64\<close> results: 60 seconds, 3 peers.\<close>

definition defaults60 :: config where
  "defaults60 = \<lparr>maxSecondsBehind = 60, minPeers = 3\<rparr>"

text \<open>
  A Nethermind node that is 5 seconds behind, has 12 peers and reports
  \<open>{"status":"Healthy", ... "IsSyncing":false,"Errors":[]}\<close>.
\<close>

definition nethermindNode :: node where
  "nethermindNode =
     \<lparr>dial = None, latestBlock = Inr 5000000000, peerCount = Inr 12,
      clientVersion = Inr ''Nethermind/v1.25'',
      health = Inr \<lparr>Status = ''Healthy'', IsSyncing = False, Errors = []\<rparr>\<rparr>"

text \<open>An Erigon node with 12 peers whose latest block is 30 seconds old; it has no \<open>/health\<close>.\<close>

definition erigonNode :: node where
  "erigonNode =
     \<lparr>dial = None, latestBlock = Inr 30000000000, peerCount = Inr 12,
      clientVersion = Inr ''erigon/2.0'', health = Inl TransportError\<rparr>"

text \<open>The same node seen half a second later: 30.5 seconds behind.\<close>

definition erigonLate :: node where
  "erigonLate = erigonNode\<lparr>latestBlock := Inr 30500000000\<rparr>"

text \<open>The same node with a block stamped 2 seconds after the local clock.\<close>

definition erigonSkewed :: node where
  "erigonSkewed = erigonNode\<lparr>latestBlock := Inr (- 2000000000)\<rparr>"


text \<open>The Nethermind node when \<open>web3_clientVersion\<close> cannot be decoded.\<close>

definition undetectedNode :: node where
  "undetectedNode = nethermindNode\<lparr>clientVersion := Inl DecodeError\<rparr>"

text \<open>The Nethermind node reporting the status \<open>Degraded\<close>, not syncing, no errors.\<close>

definition degradedNode :: node where
  "degradedNode =
     nethermindNode\<lparr>health := Inr \<lparr>Status = ''Degraded'', IsSyncing = False, Errors = []\<rparr>\<rparr>"

text \<open>A report of the polled node with one check disabled and the others healthy.\<close>

definition disabledReport :: HealthResponse where
  "disabledReport =
     \<lparr>CheckBlock = ''DISABLED'', MaxSecondsBehind = ''HEALTHY'',
      MinPeerCount = ''HEALTHY'', Synced = ''HEALTHY''\<rparr>"

text \<open>A start-up at which the node cannot be reached and the port is free.\<close>

definition unreachableStartup :: startup where
  "unreachableStartup = \<lparr>probe = Some TransportError, listen = None\<rparr>"

section \<open>Properties of the evaluator\<close>

lemmas evaluator_defs = nodeHealth_def blockDelta_def checkNodePeers_def DetectClientType_def
  NethermindHealthCheck_def Let_def

lemmas node_defs = defaults_def nethermindNode_def erigonNode_def

lemmas run_simps = evaluator_defs node_defs SecondsGreater_def intSeconds_def
  clientTypeOf_def strings_Contains_def sublist_code readinessHandler_def

text \<open>When the verdict is healthy, in terms of what the node answered.\<close>

lemma nodeHealth_verdict:
  "fst (nodeHealth cfg nd) \<longleftrightarrow>
     dial nd = None \<and>
     (\<exists>d p. latestBlock nd = Inr d \<and> peerCount nd = Inr p
        \<and> minPeers cfg \<le> sint p \<and> intSeconds d \<le> maxSecondsBehind cfg
        \<and> (fst (fst (DetectClientType nd)) = ''Nethermind'' \<longrightarrow>
             (\<exists>h. health nd = Inr h \<and> Errors h = [] \<and> \<not> IsSyncing h)))"
  by (auto simp: evaluator_defs split: option.splits sum.splits prod.splits if_splits)

text \<open>Which calls an evaluation sends, and in which order.\<close>

lemma nodeHealth_calls:
  "callsOf (snd (nodeHealth cfg nd)) =
     (if dial nd \<noteq> None then []
      else if isl (latestBlock nd) then [BlockByNumber]
      else if isl (peerCount nd) then [BlockByNumber, PeerCount]
      else if fst (fst (DetectClientType nd)) \<noteq> ''Nethermind''
      then [BlockByNumber, PeerCount, Web3ClientVersion]
      else [BlockByNumber, PeerCount, Web3ClientVersion, GetHealth])"
  by (auto simp: evaluator_defs split: option.splits sum.splits prod.splits if_splits)

lemma nodeHealth_call_order:
  "prefix (callsOf (snd (nodeHealth cfg nd)))
     [BlockByNumber, PeerCount, Web3ClientVersion, GetHealth]"
  by (simp add: nodeHealth_calls)

text \<open>Every evaluation ends with a line in the log.\<close>

lemma nodeHealth_logs:
  "\<exists>l m. last (snd (nodeHealth cfg nd)) = Log l m"
  by (auto simp: evaluator_defs split: option.splits sum.splits prod.splits if_splits)


lemma strings_Contains_iff:
  "strings_Contains s substr \<longleftrightarrow> (\<exists>a b. s = a @ substr @ b)"
  by (simp add: strings_Contains_def sublist_def)

subsection \<open>Whole seconds of a duration\<close>

lemma intSeconds_mono: "d \<le> d' \<Longrightarrow> intSeconds d \<le> intSeconds d'"
proof -
  assume le: "d \<le> d'"
  have n: "x < 0 \<Longrightarrow> - ((- x) div 1000000000) \<le> 0" for x :: int
    by simp
  have p: "0 \<le> x \<Longrightarrow> 0 \<le> x div 1000000000" for x :: int
    by simp
  show ?thesis
  proof (cases "d < 0")
    case True
    show ?thesis
    proof (cases "d' < 0")
      case True
      with le \<open>d < 0\<close> have "(- d') div 1000000000 \<le> (- d) div 1000000000"
        by (intro zdiv_mono1) simp_all
      with True \<open>d < 0\<close> show ?thesis by (simp add: intSeconds_def)
    next
      case False
      with n [OF \<open>d < 0\<close>] p [of d'] \<open>d < 0\<close> show ?thesis
        by (simp add: intSeconds_def)
    qed
  next
    case False
    with le have "d div 1000000000 \<le> d' div 1000000000"
      by (intro zdiv_mono1) simp_all
    with False le show ?thesis by (simp add: intSeconds_def)
  qed
qed

text \<open>
  A lag of \<open>m\<close> seconds and a fraction has \<open>m\<close> whole seconds: for the threshold \<open>m\<close>
  itself it is above the threshold as a duration and not above it as an \<open>int\<close>.
\<close>

lemma intSeconds_band:
  assumes "0 \<le> m" and "m * 1000000000 \<le> d" and "d < (m + 1) * 1000000000"
  shows "intSeconds d = m"
proof -
  have "0 \<le> d" using assms by simp
  moreover have "d div 1000000000 = m"
    using assms by (intro int_div_pos_eq [of d 1000000000 m "d - m * 1000000000"]) simp_all
  ultimately show ?thesis by (simp add: intSeconds_def)
qed

subsection \<open>How the verdict moves with its inputs\<close>

text \<open>More lag and fewer peers never turn an unhealthy verdict into a healthy one.\<close>

lemma nodeHealth_monotone:
  assumes "latestBlock nd = Inr d" and "peerCount nd = Inr p"
    and "d \<le> d'" and "sint p' \<le> sint p" and "\<not> fst (nodeHealth cfg nd)"
  shows "\<not> fst (nodeHealth cfg (nd\<lparr>latestBlock := Inr d', peerCount := Inr p'\<rparr>))"
proof -
  have "intSeconds d \<le> intSeconds d'"
    using assms(3) by (rule intSeconds_mono)
  with assms show ?thesis
    by (auto simp: nodeHealth_verdict DetectClientType_def)
qed

text \<open>Too few peers alone make the verdict unhealthy.\<close>

lemma nodeHealth_few_peers:
  assumes "peerCount nd = Inr p" and "sint p < minPeers cfg"
  shows "\<not> fst (nodeHealth cfg nd)"
  using assms by (auto simp: nodeHealth_verdict)

text \<open>
  Whole seconds above the threshold make the verdict unhealthy; a lag above the threshold
  by less than a second does not, when peers and strategy pass.
\<close>

lemma nodeHealth_whole_seconds_late:
  assumes "latestBlock nd = Inr d" and "maxSecondsBehind cfg < intSeconds d"
  shows "\<not> fst (nodeHealth cfg nd)"
  using assms by (auto simp: nodeHealth_verdict)

lemma nodeHealth_fraction_late:
  assumes "dial nd = None" and "latestBlock nd = Inr d" and "peerCount nd = Inr p"
    and "minPeers cfg \<le> sint p" and "fst (fst (DetectClientType nd)) \<noteq> ''Nethermind''"
    and "0 \<le> maxSecondsBehind cfg"
    and "maxSecondsBehind cfg * 1000000000 < d"
    and "d < (maxSecondsBehind cfg + 1) * 1000000000"
  shows "SecondsGreater d (maxSecondsBehind cfg) \<and> fst (nodeHealth cfg nd)"
proof -
  have "intSeconds d = maxSecondsBehind cfg"
    using assms by (intro intSeconds_band) simp_all
  with assms show ?thesis
    by (simp add: nodeHealth_verdict SecondsGreater_def)
qed

subsection \<open>A negative lag in the variant with \<open>int\<close> results\<close>

text \<open>
  With \<open>int\<close> results a block stamped after the local clock passes the lag check for
  every threshold that is not negative, and the verdict is that of the peer count and
  the strategy alone.
\<close>

lemma nodeHealth_negative_lag:
  assumes "dial nd = None" and "latestBlock nd = Inr d" and "d < 0"
    and "0 \<le> maxSecondsBehind cfg"
  shows "\<not> SecondsGreater d (maxSecondsBehind cfg)
       \<and> blockDelta cfg nd = ((intSeconds d, None), [Call BlockByNumber])
       \<and> intSeconds d \<le> 0
       \<and> intSeconds d \<le> maxSecondsBehind cfg
       \<and> fst (nodeHealth cfg nd) =
           (\<exists>p. peerCount nd = Inr p \<and> minPeers cfg \<le> sint p
              \<and> (fst (fst (DetectClientType nd)) = ''Nethermind'' \<longrightarrow>
                   (\<exists>h. health nd = Inr h \<and> Errors h = [] \<and> \<not> IsSyncing h)))"
proof -
  have g: "\<not> SecondsGreater d (maxSecondsBehind cfg)"
    using assms by (simp add: SecondsGreater_def)
  have "(- d) div 1000000000 \<ge> 0" using assms by simp
  then have z: "intSeconds d \<le> 0"
    using assms by (simp add: intSeconds_def)
  with assms have i: "intSeconds d \<le> maxSecondsBehind cfg"
    by simp
  have b: "blockDelta cfg nd = ((intSeconds d, None), [Call BlockByNumber])"
    using assms g by (simp add: blockDelta_def)
  from g z i b assms show ?thesis by (simp add: nodeHealth_verdict)
qed

subsection \<open>The variant with \<open>uint64\<close> results\<close>

lemmas evaluator_u64_defs = nodeHealth_u64_def blockDelta_u64_def checkNodePeers_u64_def
  DetectClientType_def NethermindHealthCheck_def Let_def

lemma nodeHealth_u64_verdict:
  "fst (nodeHealth_u64 cfg nd) \<longleftrightarrow>
     dial nd = None \<and>
     (\<exists>d p. latestBlock nd = Inr d \<and> peerCount nd = Inr p
        \<and> word_of_int (minPeers cfg) \<le> p
        \<and> uint64Seconds d \<le> word_of_int (maxSecondsBehind cfg)
        \<and> (fst (fst (DetectClientType nd)) = ''Nethermind'' \<longrightarrow>
             (\<exists>h. health nd = Inr h \<and> Errors h = [] \<and> \<not> IsSyncing h)))"
  by (auto simp: evaluator_u64_defs split: option.splits sum.splits prod.splits if_splits)

lemma uint64Seconds_numerals:
  "uint64Seconds (- 2000000000) = 18446744073709551614" "uint64Seconds 0 = 0"
  by (simp_all add: uint64Seconds_def intSeconds_def)

text \<open>
  Negative whole seconds become a word of at least \<open>2 ^ 63\<close>, above every threshold an
  \<open>int\<close> can hold.
\<close>

lemma uint64Seconds_future:
  assumes "- 9223372036854775808 \<le> intSeconds d" and "intSeconds d < 0"
    and "0 \<le> m" and "m < 9223372036854775808"
  shows "\<not> uint64Seconds d \<le> (word_of_int m :: 64 word)"
proof -
  define k where "k = intSeconds d"
  have "k mod 18446744073709551616 = (k + 18446744073709551616) mod 18446744073709551616"
    by simp
  also have "\<dots> = k + 18446744073709551616"
    using assms(1,2) by (intro mod_pos_pos_trivial) (simp_all add: k_def)
  finally have a: "uint (word_of_int k :: 64 word) = k + 18446744073709551616"
    by (simp add: uint_word_of_int)
  have "m mod 18446744073709551616 = m"
    using assms(3,4) by (intro mod_pos_pos_trivial) simp_all
  then have b: "uint (word_of_int m :: 64 word) = m"
    by (simp add: uint_word_of_int)
  from a b assms show ?thesis
    by (simp add: uint64Seconds_def word_le_def k_def)
qed

text \<open>
  So in this variant every block stamped a second or more after the local clock makes
  the verdict unhealthy, whatever the peers and the client.
\<close>

lemma nodeHealth_u64_future_block:
  assumes "latestBlock nd = Inr d" and "d \<le> - 1000000000"
    and "- 9223372036854775808 \<le> d"
    and "0 \<le> maxSecondsBehind cfg" and "maxSecondsBehind cfg < 9223372036854775808"
  shows "\<not> fst (nodeHealth_u64 cfg nd)"
proof -
  have "1 \<le> (- d) div 1000000000"
    using assms(2) by linarith
  then have n: "intSeconds d < 0"
    using assms(2) by (simp add: intSeconds_def)
  have "(- d) div 1000000000 \<le> - d"
    using assms(2) by linarith
  then have l: "- 9223372036854775808 \<le> intSeconds d"
    using assms(2,3) by (simp add: intSeconds_def)
  have "\<not> uint64Seconds d \<le> (word_of_int (maxSecondsBehind cfg) :: 64 word)"
    using l n assms(4,5) by (rule uint64Seconds_future)
  with assms(1) show ?thesis
    by (simp add: nodeHealth_u64_verdict)
qed

section \<open>The claims\<close>

subsection \<open>Order of the checks and the lag threshold\<close>

text \<open>
  Claim C1 says that the evaluation checks the block lag, then the peer count, then the
  client and its strategy, stops with an unhealthy verdict at the first check that fails
  (a lag above \<open>maxSecondsBehind\<close>, fewer peers than \<open>minPeers\<close>, a blocking sync
  signal), and is healthy exactly when all three pass. The calls do go out in that order
  (\<open>nodeHealth_call_order\<close>). At a lag of 30.5 seconds against a threshold of 30,
  however, \<open>blockDelta\<close> logs that the node is too far behind and returns no error, the
  evaluation goes on to the peer count and the client version, compares the 30 whole
  seconds with the threshold, and the verdict is healthy.
\<close>

theorem late_node_reported_healthy:
  "SecondsGreater 30500000000 (maxSecondsBehind defaults)
   \<and> nodeHealth defaults erigonLate =
       (True,
        [Call BlockByNumber, Log ErrorLevel ''Node is too far behind'',
         Call PeerCount, Call Web3ClientVersion, Log InfoLevel ''Node health check''])
   \<and> fst (readinessHandler defaults erigonLate) = 200"
  by (simp add: run_simps erigonLate_def)

subsection \<open>Fail-closed on errors\<close>



subsection \<open>Client detection\<close>

text \<open>
  Claim C3: for every version string that \<open>web3_clientVersion\<close> returns, detection looks
  for the markers as substrings, case-sensitively, in the order \<open>Nethermind\<close>,
  \<open>erigon\<close>, \<open>reth\<close>, and the first one found decides; a string with none of them is
  \<open>Unknown\<close>. No error is returned.
\<close>

theorem detect_priority:
  assumes "clientVersion nd = Inr v"
  shows "fst (DetectClientType nd) =
           (if (\<exists>a b. v = a @ ''Nethermind'' @ b) then ''Nethermind''
            else if (\<exists>a b. v = a @ ''erigon'' @ b) then ''Erigon''
            else if (\<exists>a b. v = a @ ''reth'' @ b) then ''Reth''
            else ''Unknown'', None)"
  using assms by (simp add: DetectClientType_def clientTypeOf_def strings_Contains_iff)

theorem detect_priority_witness:
  "clientVersion nethermindNode = Inr ''Nethermind/v1.25''
   \<and> (\<exists>a b. ''Nethermind/v1.25'' = a @ ''Nethermind'' @ b)
   \<and> fst (DetectClientType nethermindNode) = (''Nethermind'', None)
   \<and> fst (DetectClientType erigonNode) = (''Erigon'', None)
   \<and> fst (DetectClientType (erigonNode\<lparr>clientVersion := Inr ''reth/v0.1.0''\<rparr>))
       = (''Reth'', None)
   \<and> fst (DetectClientType (erigonNode\<lparr>clientVersion := Inr ''erigon on Nethermind''\<rparr>))
       = (''Nethermind'', None)
   \<and> fst (DetectClientType (erigonNode\<lparr>clientVersion := Inr ''nethermind/v1.25''\<rparr>))
       = (''Unknown'', None)
   \<and> fst (DetectClientType (erigonNode\<lparr>clientVersion := Inr ''Geth/v1.13.5''\<rparr>))
       = (''Unknown'', None)"
proof -
  have c: "clientVersion nethermindNode = Inr ''Nethermind/v1.25''"
    by (simp add: node_defs)
  have s: "\<exists>a b. ''Nethermind/v1.25'' = a @ ''Nethermind'' @ b"
    by (rule exI [of _ "''''"], rule exI [of _ "''/v1.25''"]) simp
  have n: "fst (DetectClientType nethermindNode) = (''Nethermind'', None)"
    using detect_priority [OF c] s by simp
  have r: "fst (DetectClientType erigonNode) = (''Erigon'', None)"
    "fst (DetectClientType (erigonNode\<lparr>clientVersion := Inr ''reth/v0.1.0''\<rparr>))
       = (''Reth'', None)"
    "fst (DetectClientType (erigonNode\<lparr>clientVersion := Inr ''erigon on Nethermind''\<rparr>))
       = (''Nethermind'', None)"
    "fst (DetectClientType (erigonNode\<lparr>clientVersion := Inr ''nethermind/v1.25''\<rparr>))
       = (''Unknown'', None)"
    "fst (DetectClientType (erigonNode\<lparr>clientVersion := Inr ''Geth/v1.13.5''\<rparr>))
       = (''Unknown'', None)"
    by (simp_all add: run_simps)
  from c s n r show ?thesis by simp
qed

subsection \<open>The Nethermind strategy\<close>

text \<open>
  Claim C4, as the code has it. The health document of a Nethermind node is read in two
  places. \<open>CheckNethermindHealth\<close> blocks when the document says syncing and when its
  error list is not empty, whatever the syncing flag; a document that is not syncing and
  has no errors passes only if its top-level status is \<open>Healthy\<close> and is a failed
  check, returned with an error, for any other status. The evaluators read the document
  themselves once block and peers were fetched and the client is Nethermind: they block
  on syncing and on a non-empty error list alike, do not read the status, and for a
  document that is not syncing and has no errors the verdict is that of the peer and lag
  comparisons.
\<close>

theorem nethermind_strategy:
  assumes "health nd = Inr h"
  shows "(IsSyncing h \<longrightarrow> \<not> fst (fst (CheckNethermindHealth nd)))
       \<and> (Errors h \<noteq> [] \<longrightarrow> \<not> fst (fst (CheckNethermindHealth nd)))
       \<and> (\<not> IsSyncing h \<and> Errors h = [] \<longrightarrow>
            fst (fst (CheckNethermindHealth nd)) = (Status h = ''Healthy''))
       \<and> fst (CheckNethermindHealth nd) =
           (if Status h = ''Healthy'' \<and> \<not> IsSyncing h \<and> Errors h = []
            then (True, None) else (False, Some NotHealthyError))
       \<and> (dial nd = None \<and> latestBlock nd = Inr d \<and> peerCount nd = Inr p
            \<and> clientVersion nd = Inr v \<and> strings_Contains v ''Nethermind'' \<longrightarrow>
            (IsSyncing h \<longrightarrow>
               \<not> fst (nodeHealth cfg nd) \<and> \<not> fst (nodeHealth_u64 cfg nd))
          \<and> (Errors h \<noteq> [] \<longrightarrow>
               \<not> fst (nodeHealth cfg nd) \<and> \<not> fst (nodeHealth_u64 cfg nd))
          \<and> (\<not> IsSyncing h \<and> Errors h = [] \<longrightarrow>
               fst (nodeHealth cfg nd) =
                 (minPeers cfg \<le> sint p \<and> intSeconds d \<le> maxSecondsBehind cfg)
             \<and> fst (nodeHealth_u64 cfg nd) =
                 (word_of_int (minPeers cfg) \<le> p
                  \<and> uint64Seconds d \<le> word_of_int (maxSecondsBehind cfg))))"
proof -
  have c: "fst (CheckNethermindHealth nd) =
           (if Status h = ''Healthy'' \<and> \<not> IsSyncing h \<and> Errors h = []
            then (True, None) else (False, Some NotHealthyError))"
    using assms by (simp add: CheckNethermindHealth_def)
  have e: "dial nd = None \<and> latestBlock nd = Inr d \<and> peerCount nd = Inr p
            \<and> clientVersion nd = Inr v \<and> strings_Contains v ''Nethermind'' \<longrightarrow>
            (IsSyncing h \<longrightarrow>
               \<not> fst (nodeHealth cfg nd) \<and> \<not> fst (nodeHealth_u64 cfg nd))
          \<and> (Errors h \<noteq> [] \<longrightarrow>
               \<not> fst (nodeHealth cfg nd) \<and> \<not> fst (nodeHealth_u64 cfg nd))
          \<and> (\<not> IsSyncing h \<and> Errors h = [] \<longrightarrow>
               fst (nodeHealth cfg nd) =
                 (minPeers cfg \<le> sint p \<and> intSeconds d \<le> maxSecondsBehind cfg)
             \<and> fst (nodeHealth_u64 cfg nd) =
                 (word_of_int (minPeers cfg) \<le> p
                  \<and> uint64Seconds d \<le> word_of_int (maxSecondsBehind cfg)))"
    using assms
    by (auto simp: nodeHealth_verdict nodeHealth_u64_verdict DetectClientType_def
        clientTypeOf_def)
  from c e show ?thesis by simp
qed

theorem nethermind_strategy_witness:
  "strings_Contains ''Nethermind/v1.25'' ''Nethermind''
   \<and> fst (fst (CheckNethermindHealth nethermindNode))
   \<and> fst (nodeHealth defaults nethermindNode)
   \<and> fst (nodeHealth_u64 defaults nethermindNode)
   \<and> \<not> fst (fst (CheckNethermindHealth degradedNode))
   \<and> fst (nodeHealth defaults degradedNode)
   \<and> \<not> fst (fst (CheckNethermindHealth (nethermindNode\<lparr>health :=
          Inr \<lparr>Status = ''Healthy'', IsSyncing = True, Errors = []\<rparr>\<rparr>)))
   \<and> \<not> fst (nodeHealth defaults (nethermindNode\<lparr>health :=
          Inr \<lparr>Status = ''Healthy'', IsSyncing = True, Errors = []\<rparr>\<rparr>))
   \<and> \<not> fst (nodeHealth_u64 defaults (nethermindNode\<lparr>health :=
          Inr \<lparr>Status = ''Healthy'', IsSyncing = True, Errors = []\<rparr>\<rparr>))
   \<and> \<not> fst (fst (CheckNethermindHealth (nethermindNode\<lparr>health :=
          Inr \<lparr>Status = ''Healthy'', IsSyncing = False, Errors = [''no peers'']\<rparr>\<rparr>)))
   \<and> \<not> fst (nodeHealth defaults (nethermindNode\<lparr>health :=
          Inr \<lparr>Status = ''Healthy'', IsSyncing = False, Errors = [''no peers'']\<rparr>\<rparr>))"
proof -
  have c: "strings_Contains ''Nethermind/v1.25'' ''Nethermind''"
    by (simp add: strings_Contains_def sublist_code)
  have u: "uint64Seconds 5000000000 = 5"
    by (simp add: uint64Seconds_def intSeconds_def)
  have a: "fst (fst (CheckNethermindHealth nethermindNode))
   \<and> fst (nodeHealth defaults nethermindNode)
   \<and> fst (nodeHealth_u64 defaults nethermindNode)"
    using c u nethermind_strategy [of nethermindNode
        "\<lparr>Status = ''Healthy'', IsSyncing = False, Errors = []\<rparr>"
        5000000000 12 "''Nethermind/v1.25''" defaults]
    by (simp add: node_defs intSeconds_def)
  have g: "\<not> fst (fst (CheckNethermindHealth degradedNode))
   \<and> fst (nodeHealth defaults degradedNode)"
    using c nethermind_strategy [of degradedNode
        "\<lparr>Status = ''Degraded'', IsSyncing = False, Errors = []\<rparr>"
        5000000000 12 "''Nethermind/v1.25''" defaults]
    by (simp add: node_defs degradedNode_def intSeconds_def)
  have b: "\<not> fst (fst (CheckNethermindHealth (nethermindNode\<lparr>health :=
          Inr \<lparr>Status = ''Healthy'', IsSyncing = True, Errors = []\<rparr>\<rparr>)))
   \<and> \<not> fst (nodeHealth defaults (nethermindNode\<lparr>health :=
          Inr \<lparr>Status = ''Healthy'', IsSyncing = True, Errors = []\<rparr>\<rparr>))
   \<and> \<not> fst (nodeHealth_u64 defaults (nethermindNode\<lparr>health :=
          Inr \<lparr>Status = ''Healthy'', IsSyncing = True, Errors = []\<rparr>\<rparr>))"
    using c nethermind_strategy [of "nethermindNode\<lparr>health :=
             Inr \<lparr>Status = ''Healthy'', IsSyncing = True, Errors = []\<rparr>\<rparr>"
        "\<lparr>Status = ''Healthy'', IsSyncing = True, Errors = []\<rparr>"
        5000000000 12 "''Nethermind/v1.25''" defaults]
    by (simp add: node_defs)
  have e: "\<not> fst (fst (CheckNethermindHealth (nethermindNode\<lparr>health :=
          Inr \<lparr>Status = ''Healthy'', IsSyncing = False, Errors = [''no peers'']\<rparr>\<rparr>)))
   \<and> \<not> fst (nodeHealth defaults (nethermindNode\<lparr>health :=
          Inr \<lparr>Status = ''Healthy'', IsSyncing = False, Errors = [''no peers'']\<rparr>\<rparr>))"
    using c nethermind_strategy [of "nethermindNode\<lparr>health :=
             Inr \<lparr>Status = ''Healthy'', IsSyncing = False, Errors = [''no peers'']\<rparr>\<rparr>"
        "\<lparr>Status = ''Healthy'', IsSyncing = False, Errors = [''no peers'']\<rparr>"
        5000000000 12 "''Nethermind/v1.25''" defaults]
    by (simp add: node_defs)
  from c a g b e show ?thesis by simp
qed

text \<open>
  A document that is not syncing and has no errors, with the status \<open>Degraded\<close>, does
  not pass \<open>CheckNethermindHealth\<close>.
\<close>

theorem degraded_document_blocks:
  "health degradedNode = Inr \<lparr>Status = ''Degraded'', IsSyncing = False, Errors = []\<rparr>
   \<and> fst (CheckNethermindHealth degradedNode) = (False, Some NotHealthyError)"
  by (simp add: CheckNethermindHealth_def degradedNode_def nethermindNode_def)

subsection \<open>A block stamped in the future\<close>

text \<open>
  Claim C5 says that a block stamped later than the local clock, a negative lag, passes
  the lag check and never by itself makes the verdict unhealthy. In the variant with
  \<open>uint64\<close> results a block stamped 2 seconds ahead is not above the threshold of 60
  seconds and \<open>blockDelta\<close> returns no error, but the lag it returns is the word
  \<open>2 ^ 64 - 2\<close>, which the final comparison finds above the threshold: the verdict is
  unhealthy, while the same node with a lag of 0 is healthy, and so is this node in the
  variant with \<open>int\<close> results (\<open>nodeHealth_negative_lag\<close>).
\<close>

theorem future_block_reported_unhealthy:
  "latestBlock erigonSkewed = Inr (- 2000000000)
   \<and> \<not> SecondsGreater (- 2000000000) (maxSecondsBehind defaults60)
   \<and> blockDelta_u64 defaults60 erigonSkewed =
       ((18446744073709551614, None), [Call BlockByNumber])
   \<and> \<not> fst (nodeHealth_u64 defaults60 erigonSkewed)
   \<and> fst (nodeHealth_u64 defaults60 (erigonSkewed\<lparr>latestBlock := Inr 0\<rparr>))
   \<and> fst (nodeHealth defaults60 erigonSkewed)"
proof -
  have l: "latestBlock erigonSkewed = Inr (- 2000000000)"
    by (simp add: erigonSkewed_def)
  have g: "\<not> SecondsGreater (- 2000000000) (maxSecondsBehind defaults60)"
    by (simp add: SecondsGreater_def defaults60_def)
  have b: "blockDelta_u64 defaults60 erigonSkewed =
       ((18446744073709551614, None), [Call BlockByNumber])"
    using g by (simp add: blockDelta_u64_def erigonSkewed_def erigonNode_def
        uint64Seconds_numerals)
  have c: "fst (fst (DetectClientType erigonSkewed)) = ''Erigon''"
    by (simp add: DetectClientType_def clientTypeOf_def strings_Contains_def sublist_code
        erigonSkewed_def erigonNode_def)
  have u: "\<not> fst (nodeHealth_u64 defaults60 erigonSkewed)"
    by (simp add: nodeHealth_u64_verdict erigonSkewed_def erigonNode_def defaults60_def
        uint64Seconds_numerals)
  have z: "fst (nodeHealth_u64 defaults60 (erigonSkewed\<lparr>latestBlock := Inr 0\<rparr>))"
    using c
    by (simp add: nodeHealth_u64_verdict DetectClientType_def erigonSkewed_def erigonNode_def
        defaults60_def uint64Seconds_numerals)
  have i: "fst (nodeHealth defaults60 erigonSkewed)"
    using c
    by (simp add: nodeHealth_verdict DetectClientType_def erigonSkewed_def erigonNode_def
        defaults60_def intSeconds_def)
  from l g b u z i show ?thesis by simp
qed

subsection \<open>Violating one bound\<close>

text \<open>
  Claim C6 says that with lag, peers and sync signal within their bounds the verdict is
  healthy, that violating any one of the three bounds makes it unhealthy, and that more
  lag, fewer peers or a syncing node never turn an unhealthy verdict into a healthy one.
  The node that is 30 seconds behind is healthy at the threshold of 30; moving only its
  lag to 30.5 seconds, above the threshold, leaves the verdict healthy.
\<close>

theorem lag_violation_keeps_verdict:
  "\<not> SecondsGreater 30000000000 (maxSecondsBehind defaults)
   \<and> fst (nodeHealth defaults erigonNode)
   \<and> erigonLate = erigonNode\<lparr>latestBlock := Inr 30500000000\<rparr>
   \<and> SecondsGreater 30500000000 (maxSecondsBehind defaults)
   \<and> fst (nodeHealth defaults erigonLate)"
  by (simp add: run_simps erigonLate_def)

subsection \<open>Detection failure\<close>

text \<open>
  Claim C7, as the code has it: when the \<open>web3_clientVersion\<close> call fails, the detector
  returns the empty client type, not \<open>Unknown\<close>, together with the error. The evaluator
  writes the error to the log at info level and does not fail: the type is not
  \<open>Nethermind\<close>, so no health document is fetched and the verdict is that of the peer
  and lag comparisons, as for any client without a strategy of its own.
\<close>

theorem detection_failure_generic:
  assumes "dial nd = None" and "latestBlock nd = Inr d" and "peerCount nd = Inr p"
    and "clientVersion nd = Inl e"
  shows "fst (DetectClientType nd) = ('''', Some e)
       \<and> fst (nodeHealth cfg nd) =
           (minPeers cfg \<le> sint p \<and> intSeconds d \<le> maxSecondsBehind cfg)
       \<and> Log InfoLevel ''Failed to detect the client type'' \<in> set (snd (nodeHealth cfg nd))
       \<and> callsOf (snd (nodeHealth cfg nd)) = [BlockByNumber, PeerCount, Web3ClientVersion]"
  using assms
  by (auto simp: nodeHealth_verdict nodeHealth_calls DetectClientType_def evaluator_defs
      split: if_splits)

theorem detection_failure_generic_witness:
  "clientVersion undetectedNode = Inl DecodeError
   \<and> fst (DetectClientType undetectedNode) = ('''', Some DecodeError)
   \<and> fst (nodeHealth defaults undetectedNode)
   \<and> callsOf (snd (nodeHealth defaults undetectedNode)) =
       [BlockByNumber, PeerCount, Web3ClientVersion]"
proof -
  have c: "clientVersion undetectedNode = Inl DecodeError"
    and d: "dial undetectedNode = None"
    and l: "latestBlock undetectedNode = Inr 5000000000"
    and p: "peerCount undetectedNode = Inr 12"
    by (simp_all add: node_defs undetectedNode_def)
  from detection_failure_generic [OF d l p c, of defaults] c show ?thesis
    by (simp add: defaults_def intSeconds_def)
qed

text \<open>The detector's answer on a failed call is not the type \<open>Unknown\<close>.\<close>

theorem detection_failure_not_Unknown:
  "isl (clientVersion undetectedNode)
   \<and> fst (fst (DetectClientType undetectedNode)) \<noteq> ''Unknown''"
  by (simp add: DetectClientType_def node_defs undetectedNode_def)

subsection \<open>Start-up\<close>

text \<open>
  Claim C8 says that only a port that cannot be bound ends the process, and that every
  failure during an evaluation becomes an unhealthy verdict and a log line. An evaluation
  does always end with a verdict and a log line (\<open>nodeHealth_logs\<close>). At start-up,
  however, when the readiness request to the node fails after its retries, \<open>main\<close> logs
  the error and then dereferences the missing response: the process panics although the
  port is free.
\<close>

theorem unreachable_node_panics_at_startup:
  "listen unreachableStartup = None
   \<and> main unreachableStartup =
       (Panic, [Log ErrorLevel ''Failed to perform a new request''])"
  by (simp add: main_def unreachableStartup_def)

subsection \<open>The status string of the Nethermind document\<close>

text \<open>
  Claim C9: \<open>CheckNethermindHealth\<close> reports healthy only for a document that was
  fetched and decoded, is not syncing, has no errors and whose top-level status is exactly
  \<open>Healthy\<close>; a document that is not syncing and has no errors but any other status is a
  failed check, returned with an error.
\<close>

theorem status_string_required:
  "(fst (fst (CheckNethermindHealth nd)) \<longleftrightarrow>
      (\<exists>h. health nd = Inr h \<and> Status h = ''Healthy'' \<and> \<not> IsSyncing h \<and> Errors h = []))
   \<and> (\<forall>h. health nd = Inr h \<and> \<not> IsSyncing h \<and> Errors h = [] \<and> Status h \<noteq> ''Healthy''
         \<longrightarrow> fst (CheckNethermindHealth nd) = (False, Some NotHealthyError))"
  by (auto simp: CheckNethermindHealth_def split: sum.splits)

theorem status_string_required_witness:
  "health degradedNode = Inr \<lparr>Status = ''Degraded'', IsSyncing = False, Errors = []\<rparr>
   \<and> fst (CheckNethermindHealth degradedNode) = (False, Some NotHealthyError)
   \<and> fst (fst (CheckNethermindHealth nethermindNode))"
proof -
  have h: "health degradedNode = Inr \<lparr>Status = ''Degraded'', IsSyncing = False, Errors = []\<rparr>"
    by (simp add: node_defs degradedNode_def)
  have g: "health nethermindNode = Inr \<lparr>Status = ''Healthy'', IsSyncing = False, Errors = []\<rparr>"
    by (simp add: node_defs)
  from status_string_required [of degradedNode] h
  have a: "fst (CheckNethermindHealth degradedNode) = (False, Some NotHealthyError)"
    by simp
  from status_string_required [of nethermindNode] g
  have b: "fst (fst (CheckNethermindHealth nethermindNode))"
    by simp
  from h a b show ?thesis by simp
qed

subsection \<open>The polled verdict\<close>

text \<open>
  Claim C10: in the polling variant a pass of the loop sets the shared verdict to healthy
  exactly when a report was decoded and each of its four fields \<open>synced\<close>,
  \<open>min_peer_count\<close>, \<open>max_seconds_behind\<close> and \<open>check_block\<close> is \<open>HEALTHY\<close> or
  \<open>DISABLED\<close>; after any number of passes the verdict is the one of the last pass, and
  \<open>/ready\<close> answers accordingly. A disabled check therefore counts as passed.
\<close>

theorem polling_verdict:
  "(fst (checkNodeHealth_pass a) \<longleftrightarrow>
      (\<exists>r. a = Decoded r \<and>
         (\<forall>s \<in> {Synced r, MinPeerCount r, MaxSecondsBehind r, CheckBlock r}.
            s = ''HEALTHY'' \<or> s = ''DISABLED'')))
   \<and> checkNodeHealth (answers @ [a]) v0 = fst (checkNodeHealth_pass a)
   \<and> readinessHandler_polling (checkNodeHealth (answers @ [a]) v0) =
       (if fst (checkNodeHealth_pass a) then 200 else 503)"
proof -
  have p: "fst (checkNodeHealth_pass a) \<longleftrightarrow>
      (\<exists>r. a = Decoded r \<and>
         (\<forall>s \<in> {Synced r, MinPeerCount r, MaxSecondsBehind r, CheckBlock r}.
            s = ''HEALTHY'' \<or> s = ''DISABLED''))"
    by (cases a) (auto simp: checkNodeHealth_pass_def isHealthyOrDisabled_def)
  have l: "checkNodeHealth (answers @ [a]) v0 = fst (checkNodeHealth_pass a)"
    by (induction answers arbitrary: v0) simp_all
  from p l show ?thesis by (simp add: readinessHandler_polling_def)
qed

theorem polling_verdict_witness:
  "fst (checkNodeHealth_pass (Decoded disabledReport))
   \<and> checkNodeHealth [DoFailed TransportError, Decoded disabledReport] False
   \<and> readinessHandler_polling
       (checkNodeHealth [DoFailed TransportError, Decoded disabledReport] False) = 200"
proof -
  have a: "fst (checkNodeHealth_pass (Decoded disabledReport))"
    using polling_verdict [of "Decoded disabledReport" "[DoFailed TransportError]" False]
    by (simp add: disabledReport_def)
  with polling_verdict [of "Decoded disabledReport" "[DoFailed TransportError]" False]
  show ?thesis by simp
qed

end
